theory Spec2Isabelle
  imports Complex_Main "HOL-Library.AList" "HOL-Library.Multiset"
begin

section \<open>Credit-card fraud detection: the scoring decision (app.py)\<close>

text \<open>
  Numbers. Python's \<open>float\<close> and numpy's \<open>float64\<close> are modelled by the real numbers
  they denote; rounding of arithmetic results is outside the model. Comparisons are
  exact on floats, and the three cut-offs behave on doubles as they do on reals: \<open>0.5\<close>
  is a double, and no double lies between the reals \<open>0.2\<close>, \<open>0.8\<close> and the doubles
  the literals \<open>0.2\<close>, \<open>0.8\<close> denote (both lie just above). Python's unbounded
  \<open>int\<close> is \<open>int\<close>.
\<close>

subsection \<open>Errors of the Python run time and of the libraries\<close>

datatype error =
    ZeroDivisionError
  | KeyError "string list"
  | ValueError
  | IndexError
  | FileNotFoundError

subsection \<open>Decision rule and risk tier (app.py, lines 499 to 505)\<close>

text \<open>\<^verbatim>\<open>prediction = int(prob_fraud > 0.5)\<close>\<close>

definition prediction :: "real \<Rightarrow> int" where
  "prediction prob_fraud = of_bool (prob_fraud > 0.5)"

text \<open>
  \<^verbatim>\<open>
  if prob_fraud < 0.2:   risk_tier, risk_color = "LOW",      "#10b981"
  elif prob_fraud < 0.5: risk_tier, risk_color = "MODERATE", "#f59e0b"
  elif prob_fraud < 0.8: risk_tier, risk_color = "HIGH",     "#ef4444"
  else:                  risk_tier, risk_color = "CRITICAL",  "#dc2626"
  \<close>
\<close>

definition risk :: "real \<Rightarrow> string \<times> string" where
  "risk prob_fraud =
     (if prob_fraud < 0.2 then (''LOW'', ''#10b981'')
      else if prob_fraud < 0.5 then (''MODERATE'', ''#f59e0b'')
      else if prob_fraud < 0.8 then (''HIGH'', ''#ef4444'')
      else (''CRITICAL'', ''#dc2626''))"

definition risk_tier :: "real \<Rightarrow> string" where
  "risk_tier prob_fraud = fst (risk prob_fraud)"

definition risk_color :: "real \<Rightarrow> string" where
  "risk_color prob_fraud = snd (risk prob_fraud)"

section \<open>Inference: from the widgets to the verdict (app.py)\<close>

subsection \<open>Persisted artifacts and their loading (app.py, lines 23 to 34)\<close>

text \<open>
  The fitted scaler and the fitted classifier are library objects; the model takes them
  as functions: \<open>scaler.transform\<close> on one row, and \<open>predict_proba\<close> on one row, which
  yields the pair \<open>(P(legit), P(fraud))\<close>, that is \<open>(prob[0], prob[1])\<close>.
\<close>

type_synonym scaler = "real list \<Rightarrow> real list"
type_synonym classifier = "real list \<Rightarrow> real \<times> real"

text \<open>
  The three files of the working directory, \<^verbatim>\<open>fraud_model.joblib\<close>,
  \<^verbatim>\<open>scaler.joblib\<close> and \<^verbatim>\<open>feature_names.joblib\<close>: \<open>None\<close> is an absent file, and
  a file that is present holds what \<^verbatim>\<open>train_model.py\<close> dumps into it.
\<close>

record artifact_files =
  fraud_model_joblib :: "classifier option"
  scaler_joblib :: "scaler option"
  feature_names_joblib :: "string list option"

definition joblib_load :: "'a option \<Rightarrow> error + 'a" where
  "joblib_load file = (case file of None \<Rightarrow> Inl FileNotFoundError | Some obj \<Rightarrow> Inr obj)"

text \<open>
  \<^verbatim>\<open>
  def load_artifacts():
      model    = joblib.load("fraud_model.joblib")
      scaler   = joblib.load("scaler.joblib")
      features = joblib.load("feature_names.joblib")
      return model, scaler, features
  \<close>
\<close>

definition load_artifacts :: "artifact_files \<Rightarrow> error + (classifier \<times> scaler \<times> string list)" where
  "load_artifacts fs =
     (case joblib_load (fraud_model_joblib fs) of Inl e \<Rightarrow> Inl e
      | Inr model \<Rightarrow>
     (case joblib_load (scaler_joblib fs) of Inl e \<Rightarrow> Inl e
      | Inr scaler \<Rightarrow>
     (case joblib_load (feature_names_joblib fs) of Inl e \<Rightarrow> Inl e
      | Inr features \<Rightarrow> Inr (model, scaler, features))))"

subsection \<open>Widget values (app.py, lines 426 to 454)\<close>

record ui_input =
  amount :: real
  hour_of_day :: int
  day_of_week :: string
  days_since :: real
  merchant_cat :: int
  distance :: real
  is_online :: bool
  is_intl :: bool
  card_present :: bool
  num_txn_1h :: int
  num_txn_24h :: int
  avg_amt_30d :: real
  credit_pct :: real
  velocity_sc :: real
  geo_risk_sc :: real

definition dow_map :: "(string \<times> int) list" where
  "dow_map = [(''Mon'', 0), (''Tue'', 1), (''Wed'', 2), (''Thu'', 3), (''Fri'', 4),
              (''Sat'', 5), (''Sun'', 6)]"

subsection \<open>Derived features at inference time (app.py, lines 470 to 472)\<close>

text \<open>Python's \<open>/\<close> on numbers raises \<open>ZeroDivisionError\<close> on a zero divisor, floats included.\<close>

definition py_truediv :: "real \<Rightarrow> real \<Rightarrow> error + real" where
  "py_truediv a b = (if b = 0 then Inl ZeroDivisionError else Inr (a / b))"

text \<open>
  \<^verbatim>\<open>
  amount_to_avg = amount / (avg_amt_30d + 1)
  txn_burst     = num_txn_1h / (num_txn_24h + 1)
  risk_comp     = (velocity_sc + geo_risk_sc) / 2
  \<close>
\<close>

definition derived_inference :: "ui_input \<Rightarrow> error + (real \<times> real \<times> real)" where
  "derived_inference u =
     (case py_truediv (amount u) (avg_amt_30d u + 1) of Inl e \<Rightarrow> Inl e
      | Inr amount_to_avg \<Rightarrow>
     (case py_truediv (of_int (num_txn_1h u)) (of_int (num_txn_24h u + 1)) of Inl e \<Rightarrow> Inl e
      | Inr txn_burst \<Rightarrow>
     (case py_truediv (velocity_sc u + geo_risk_sc u) 2 of Inl e \<Rightarrow> Inl e
      | Inr risk_comp \<Rightarrow> Inr (amount_to_avg, txn_burst, risk_comp))))"

subsection \<open>The feature vector (app.py, lines 474 to 495)\<close>

text \<open>
  The dictionary \<open>input_data\<close>, in insertion order; \<open>dow_map[day_of_week]\<close> raises
  \<open>KeyError\<close> on a key that is not a day. Integers and booleans become the floats the
  data frame's row holds for the scaler.
\<close>

definition input_data :: "ui_input \<Rightarrow> real \<times> real \<times> real \<Rightarrow> error + (string \<times> real) list" where
  "input_data u d =
     (case d of (amount_to_avg, txn_burst, risk_comp) \<Rightarrow>
      (case map_of dow_map (day_of_week u) of
         None \<Rightarrow> Inl (KeyError [day_of_week u])
       | Some dow \<Rightarrow> Inr
          [(''amount'', amount u),
           (''hour_of_day'', of_int (hour_of_day u)),
           (''day_of_week'', of_int dow),
           (''merchant_category'', of_int (merchant_cat u)),
           (''num_transactions_1h'', of_int (num_txn_1h u)),
           (''num_transactions_24h'', of_int (num_txn_24h u)),
           (''avg_amount_30d'', avg_amt_30d u),
           (''distance_from_home'', distance u),
           (''is_online'', of_bool (is_online u)),
           (''is_international'', of_bool (is_intl u)),
           (''card_present'', of_bool (card_present u)),
           (''days_since_last_txn'', days_since u),
           (''credit_limit_used_pct'', credit_pct u),
           (''velocity_score'', velocity_sc u),
           (''geo_risk_score'', geo_risk_sc u),
           (''amount_to_avg_ratio'', amount_to_avg),
           (''txn_burst'', txn_burst),
           (''risk_composite'', risk_comp)]))"

text \<open>
  \<^verbatim>\<open>input_df = pd.DataFrame([input_data])[FEATURES]\<close>: the one-row frame, its columns
  selected and ordered by the loaded name list. pandas raises \<open>KeyError\<close>, naming the
  missing labels, when a name of the list is not a column.
\<close>

definition select_columns :: "(string \<times> real) list \<Rightarrow> string list \<Rightarrow> error + real list" where
  "select_columns row feats =
     (let missing = filter (\<lambda>f. map_of row f = None) feats
      in if missing \<noteq> [] then Inl (KeyError missing)
         else Inr (map (\<lambda>f. the (map_of row f)) feats))"

subsection \<open>Scoring (app.py, lines 495 to 505)\<close>

record verdict =
  prob_fraud :: real
  prob_safe :: real
  predicted :: int
  tier :: string
  tier_color :: string

text \<open>
  \<^verbatim>\<open>
  input_df  = pd.DataFrame([input_data])[FEATURES]
  input_sc  = scaler.transform(input_df)
  prob      = model.predict_proba(input_sc)[0]
  prob_fraud, prob_safe = float(prob[1]), float(prob[0])
  prediction = int(prob_fraud > 0.5)
  \<close>
  followed by the tier chain.
\<close>

definition score_row ::
  "classifier \<Rightarrow> scaler \<Rightarrow> string list \<Rightarrow> (string \<times> real) list \<Rightarrow> error + verdict" where
  "score_row model scaler feats row =
     (case select_columns row feats of Inl e \<Rightarrow> Inl e
      | Inr input_df \<Rightarrow>
          (let input_sc = scaler input_df;
               prob = model input_sc;
               pf = snd prob;
               ps = fst prob
           in Inr \<lparr>prob_fraud = pf, prob_safe = ps, predicted = prediction pf,
                   tier = risk_tier pf, tier_color = risk_color pf\<rparr>))"


subsection \<open>The script as a whole (app.py, lines 30 to 34 and 409 to 412)\<close>





section \<open>Training: data generation and feature engineering (train_model.py)\<close>

subsection \<open>Data frames\<close>

text \<open>
  A pandas data frame is its columns in order, each a name and the list of its cells;
  all columns of a frame have the same length, the number of rows.
\<close>

type_synonym 'c frame = "(string \<times> 'c list) list"

definition nrows :: "'c frame \<Rightarrow> nat" where
  "nrows df = (case df of [] \<Rightarrow> 0 | (c, xs) # rest \<Rightarrow> length xs)"

text \<open>\<^verbatim>\<open>df[c]\<close> raises \<open>KeyError\<close> when \<open>c\<close> is not a column.\<close>

definition getcol :: "'c frame \<Rightarrow> string \<Rightarrow> error + 'c list" where
  "getcol df c = (case map_of df c of None \<Rightarrow> Inl (KeyError [c]) | Some xs \<Rightarrow> Inr xs)"

text \<open>\<^verbatim>\<open>df[c] = xs\<close> replaces the column \<open>c\<close> in place, or appends it as the last column.\<close>

definition setcol :: "'c frame \<Rightarrow> string \<Rightarrow> 'c list \<Rightarrow> 'c frame" where
  "setcol df c xs = AList.update c xs df"

text \<open>
  \<^verbatim>\<open>pd.concat([a, b])\<close> for two frames with the same column names in the same order
  (as the two populations have): the rows of \<open>b\<close> follow the rows of \<open>a\<close>.
\<close>

definition concat_frames :: "'c frame \<Rightarrow> 'c frame \<Rightarrow> 'c frame" where
  "concat_frames a b = map (\<lambda>((c, xs), (c', ys)). (c, xs @ ys)) (zip a b)"

text \<open>
  Taking rows by position, as \<^verbatim>\<open>sample\<close> does with the positions it drew (followed by
  \<^verbatim>\<open>reset_index(drop=True)\<close>, which renumbers the rows); a position outside the frame
  raises \<open>IndexError\<close>.
\<close>

definition take_rows :: "nat list \<Rightarrow> 'c frame \<Rightarrow> error + 'c frame" where
  "take_rows idx df =
     (if list_all (\<lambda>i. i < nrows df) idx
      then Inr (map (\<lambda>(c, xs). (c, map (\<lambda>i. xs ! i) idx)) df)
      else Inl IndexError)"

subsection \<open>The random number library\<close>

text \<open>
  numpy's generator is a parameter of the model: a state type \<open>'g\<close>, the state that
  \<^verbatim>\<open>np.random.seed(s)\<close> installs, one draw from a distribution (the sample and the next
  state), and the row positions that \<^verbatim>\<open>sample(frac=1, random_state=s)\<close> draws for a
  frame of \<open>n\<close> rows from its own generator, seeded with \<open>s\<close>.
\<close>

datatype dist =
    Lognormal real real
  | Choice "int list"
  | ChoiceP "int list" "real list"
  | Poisson real
  | Exponential real
  | Beta real real

record 'g np_random =
  seed_state :: "nat \<Rightarrow> 'g"
  draw :: "dist \<Rightarrow> 'g \<Rightarrow> real \<times> 'g"
  permutation :: "nat \<Rightarrow> nat \<Rightarrow> nat list"

text \<open>\<^verbatim>\<open>np.random.<dist>(..., n)\<close>: an array of \<open>n\<close> samples, drawn one after the other.\<close>

fun draws :: "(dist \<Rightarrow> 'g \<Rightarrow> real \<times> 'g) \<Rightarrow> dist \<Rightarrow> nat \<Rightarrow> 'g \<Rightarrow> real list \<times> 'g" where
  "draws dr d 0 g = ([], g)"
| "draws dr d (Suc n) g =
     (case dr d g of (x, g1) \<Rightarrow>
      (case draws dr d n g1 of (xs, g2) \<Rightarrow> (x # xs, g2)))"

subsection \<open>The two populations (train_model.py, lines 29 to 65)\<close>

definition legit_columns :: "(string \<times> dist) list" where
  "legit_columns =
     [(''amount'', Lognormal 4.0 1.2),
      (''hour_of_day'', Choice [6..22]),
      (''day_of_week'', Choice [0..6]),
      (''merchant_category'', Choice [0..9]),
      (''num_transactions_1h'', Poisson 1.5),
      (''num_transactions_24h'', Poisson 5),
      (''avg_amount_30d'', Lognormal 3.8 0.9),
      (''distance_from_home'', Exponential 20),
      (''is_online'', ChoiceP [0, 1] [0.6, 0.4]),
      (''is_international'', ChoiceP [0, 1] [0.95, 0.05]),
      (''card_present'', ChoiceP [0, 1] [0.3, 0.7]),
      (''days_since_last_txn'', Exponential 2),
      (''credit_limit_used_pct'', Beta 2 8),
      (''velocity_score'', Beta 2 10),
      (''geo_risk_score'', Beta 1 15)]"

definition fraud_columns :: "(string \<times> dist) list" where
  "fraud_columns =
     [(''amount'', Lognormal 5.5 1.5),
      (''hour_of_day'', Choice ([0..5] @ [22..23])),
      (''day_of_week'', Choice [0..6]),
      (''merchant_category'', Choice [0..9]),
      (''num_transactions_1h'', Poisson 4.5),
      (''num_transactions_24h'', Poisson 12),
      (''avg_amount_30d'', Lognormal 3.2 0.8),
      (''distance_from_home'', Exponential 200),
      (''is_online'', ChoiceP [0, 1] [0.3, 0.7]),
      (''is_international'', ChoiceP [0, 1] [0.5, 0.5]),
      (''card_present'', ChoiceP [0, 1] [0.7, 0.3]),
      (''days_since_last_txn'', Exponential 0.5),
      (''credit_limit_used_pct'', Beta 8 2),
      (''velocity_score'', Beta 8 2),
      (''geo_risk_score'', Beta 8 2)]"

text \<open>The dictionary of columns is built entry by entry, each entry drawing \<open>n\<close> samples.\<close>

fun make_columns ::
  "(dist \<Rightarrow> 'g \<Rightarrow> real \<times> 'g) \<Rightarrow> (string \<times> dist) list \<Rightarrow> nat \<Rightarrow> 'g \<Rightarrow> real frame \<times> 'g" where
  "make_columns dr [] n g = ([], g)"
| "make_columns dr ((c, d) # cs) n g =
     (case draws dr d n g of (xs, g1) \<Rightarrow>
      (case make_columns dr cs n g1 of (df, g2) \<Rightarrow> ((c, xs) # df, g2)))"

text \<open>
  numpy rejects a negative sample count with \<open>ValueError\<close> (negative dimensions are not
  allowed); the first draw of \<open>make_legit\<close> and of \<open>make_fraud\<close> raises it, so no column
  is built then.
\<close>

definition make_legit :: "'g np_random \<Rightarrow> int \<Rightarrow> 'g \<Rightarrow> error + (real frame \<times> 'g)" where
  "make_legit np n g =
     (if n < 0 then Inl ValueError else Inr (make_columns (draw np) legit_columns (nat n) g))"

definition make_fraud :: "'g np_random \<Rightarrow> int \<Rightarrow> 'g \<Rightarrow> error + (real frame \<times> 'g)" where
  "make_fraud np n g =
     (if n < 0 then Inl ValueError else Inr (make_columns (draw np) fraud_columns (nat n) g))"

subsection \<open>Generation (train_model.py, lines 22 to 27 and 67 to 72)\<close>

text \<open>Python's \<open>int\<close> of a float truncates towards zero.\<close>

definition py_int :: "real \<Rightarrow> int" where
  "py_int x = (if 0 \<le> x then \<lfloor>x\<rfloor> else \<lceil>x\<rceil>)"

text \<open>
  \<^verbatim>\<open>
  np.random.seed(42)
  N = 50_000
  FRAUD_RATE = 0.02
  n_fraud = int(N * FRAUD_RATE)
  n_legit = N - n_fraud
  ...
  df_legit = make_legit(n_legit)
  df_legit['is_fraud'] = 0
  df_fraud = make_fraud(n_fraud)
  df_fraud['is_fraud'] = 1
  df = pd.concat([df_legit, df_fraud]).sample(frac=1, random_state=42).reset_index(drop=True)
  \<close>
  The script fixes the count, the rate and the two seeds as constants; \<open>generate\<close> is
  the same code with the four of them as arguments, and with the state \<open>g0\<close> that the
  global generator has when the script starts.
\<close>

text \<open>
  \<^verbatim>\<open>np.random.seed(s)\<close> is a statement on the global generator: it discards the state
  the generator has and installs the state seeded with \<open>s\<close>.
\<close>

definition np_random_seed :: "'g np_random \<Rightarrow> nat \<Rightarrow> 'g \<Rightarrow> 'g" where
  "np_random_seed np s g = seed_state np s"

text \<open>
  Lines 26 to 71 and the \<^verbatim>\<open>pd.concat\<close> of line 72, run with the global generator in
  the state \<open>g\<close>: the legitimate rows first, then the fraudulent ones, each draw
  continuing from the state the previous one left.
\<close>

definition population :: "'g np_random \<Rightarrow> int \<Rightarrow> real \<Rightarrow> 'g \<Rightarrow> error + real frame" where
  "population np N r g =
     (let n_fraud = py_int (of_int N * r);
          n_legit = N - n_fraud
      in case make_legit np n_legit g of Inl e \<Rightarrow> Inl e
         | Inr (df_legit, g1) \<Rightarrow>
             (let df_legit = setcol df_legit ''is_fraud'' (replicate (nrows df_legit) 0)
              in case make_fraud np n_fraud g1 of Inl e \<Rightarrow> Inl e
                 | Inr (df_fraud, g2) \<Rightarrow>
                     (let df_fraud = setcol df_fraud ''is_fraud'' (replicate (nrows df_fraud) 1)
                      in Inr (concat_frames df_legit df_fraud))))"

text \<open>
  \<^verbatim>\<open>.sample(frac=1, random_state=s).reset_index(drop=True)\<close>: all the rows, at the
  positions drawn for the seed \<open>s\<close> and the number of rows.
\<close>

definition sample_all :: "'g np_random \<Rightarrow> nat \<Rightarrow> 'c frame \<Rightarrow> error + 'c frame" where
  "sample_all np s df = take_rows (permutation np s (nrows df)) df"

definition generate ::
  "'g np_random \<Rightarrow> int \<Rightarrow> real \<Rightarrow> nat \<Rightarrow> nat \<Rightarrow> 'g \<Rightarrow> error + real frame" where
  "generate np N r seed shuffle_seed g0 =
     (let g = np_random_seed np seed g0
      in case population np N r g of Inl e \<Rightarrow> Inl e
         | Inr both \<Rightarrow> sample_all np shuffle_seed both)"

text \<open>The constants of the script, and the script itself: it reads no argument.\<close>

definition N :: int where
  "N = 50000"

definition FRAUD_RATE :: real where
  "FRAUD_RATE = 0.02"

definition n_fraud :: int where
  "n_fraud = py_int (of_int N * FRAUD_RATE)"

definition n_legit :: int where
  "n_legit = N - n_fraud"

text \<open>
  A run of \<^verbatim>\<open>python train_model.py <argv>\<close>, up to the data set \<open>df\<close> of line 72. The
  command line \<open>argv\<close> is what a caller can pass; the script never reads it.
\<close>

definition train_model_dataset :: "'g np_random \<Rightarrow> string list \<Rightarrow> 'g \<Rightarrow> error + real frame" where
  "train_model_dataset np argv g0 = generate np N FRAUD_RATE 42 42 g0"

subsection \<open>Feature engineering (train_model.py, lines 74 to 85)\<close>

text \<open>
  numpy's division does not raise: a zero divisor yields \<open>inf\<close> or \<open>nan\<close>. A cell of an
  engineered frame is \<open>Some x\<close> for the finite value \<open>x\<close> and \<open>None\<close> for a non-finite one.
  Series arithmetic is cell by cell.
\<close>

definition np_truediv :: "real \<Rightarrow> real \<Rightarrow> real option" where
  "np_truediv a b = (if b = 0 then None else Some (a / b))"

definition col_add_scalar :: "real list \<Rightarrow> real \<Rightarrow> real list" where
  "col_add_scalar xs k = map (\<lambda>x. x + k) xs"

definition col_add :: "real list \<Rightarrow> real list \<Rightarrow> real list" where
  "col_add xs ys = map (\<lambda>(x, y). x + y) (zip xs ys)"

definition col_div :: "real list \<Rightarrow> real list \<Rightarrow> real option list" where
  "col_div xs ys = map (\<lambda>(x, y). np_truediv x y) (zip xs ys)"

definition col_div_scalar :: "real list \<Rightarrow> real \<Rightarrow> real option list" where
  "col_div_scalar xs k = map (\<lambda>x. np_truediv x k) xs"

text \<open>
  \<^verbatim>\<open>
  df['amount_to_avg_ratio'] = df['amount'] / (df['avg_amount_30d'] + 1)
  df['txn_burst']           = df['num_transactions_1h'] / (df['num_transactions_24h'] + 1)
  df['risk_composite']      = (df['velocity_score'] + df['geo_risk_score']) / 2
  \<close>
  The three statements read raw columns only, and none of them writes a column that a
  later one reads; so each right-hand side is computed from the raw frame, in the order
  of the statements, and the three columns are then stored.
\<close>

definition engineer :: "real frame \<Rightarrow> error + real option frame" where
  "engineer df =
     (case getcol df ''amount'' of Inl e \<Rightarrow> Inl e | Inr am \<Rightarrow>
     (case getcol df ''avg_amount_30d'' of Inl e \<Rightarrow> Inl e | Inr avg \<Rightarrow>
     (case getcol df ''num_transactions_1h'' of Inl e \<Rightarrow> Inl e | Inr n1 \<Rightarrow>
     (case getcol df ''num_transactions_24h'' of Inl e \<Rightarrow> Inl e | Inr n24 \<Rightarrow>
     (case getcol df ''velocity_score'' of Inl e \<Rightarrow> Inl e | Inr vel \<Rightarrow>
     (case getcol df ''geo_risk_score'' of Inl e \<Rightarrow> Inl e | Inr geo \<Rightarrow>
        (let df0 = map (\<lambda>(c, xs). (c, map Some xs)) df;
             df1 = setcol df0 ''amount_to_avg_ratio'' (col_div am (col_add_scalar avg 1));
             df2 = setcol df1 ''txn_burst'' (col_div n1 (col_add_scalar n24 1));
             df3 = setcol df2 ''risk_composite'' (col_div_scalar (col_add vel geo) 2)
         in Inr df3)))))))"

definition FEATURES :: "string list" where
  "FEATURES =
     [''amount'', ''hour_of_day'', ''day_of_week'', ''merchant_category'',
      ''num_transactions_1h'', ''num_transactions_24h'', ''avg_amount_30d'',
      ''distance_from_home'', ''is_online'', ''is_international'', ''card_present'',
      ''days_since_last_txn'', ''credit_limit_used_pct'', ''velocity_score'',
      ''geo_risk_score'', ''amount_to_avg_ratio'', ''txn_burst'', ''risk_composite'']"

subsection \<open>Reading a frame\<close>

text \<open>The cell of column \<open>c\<close> in row \<open>i\<close>, if there is one.\<close>

definition cell :: "'c frame \<Rightarrow> string \<Rightarrow> nat \<Rightarrow> 'c option" where
  "cell df c i =
     (case map_of df c of None \<Rightarrow> None
      | Some xs \<Rightarrow> if i < length xs then Some (xs ! i) else None)"

text \<open>Row \<open>i\<close> of the raw frame holds the values of the six fields the derived features use.\<close>

definition row_holds :: "real frame \<Rightarrow> nat \<Rightarrow> ui_input \<Rightarrow> bool" where
  "row_holds df i u \<longleftrightarrow>
     cell df ''amount'' i = Some (amount u) \<and>
     cell df ''avg_amount_30d'' i = Some (avg_amt_30d u) \<and>
     cell df ''num_transactions_1h'' i = Some (of_int (num_txn_1h u)) \<and>
     cell df ''num_transactions_24h'' i = Some (of_int (num_txn_24h u)) \<and>
     cell df ''velocity_score'' i = Some (velocity_sc u) \<and>
     cell df ''geo_risk_score'' i = Some (geo_risk_sc u)"

text \<open>The three derived cells of row \<open>i\<close> after feature engineering.\<close>

definition derived_training ::
  "real frame \<Rightarrow> nat \<Rightarrow> error + (real option option \<times> real option option \<times> real option option)" where
  "derived_training df i =
     (case engineer df of Inl e \<Rightarrow> Inl e
      | Inr df' \<Rightarrow> Inr (cell df' ''amount_to_avg_ratio'' i, cell df' ''txn_burst'' i,
                       cell df' ''risk_composite'' i))"

subsection \<open>A small generator for concrete runs\<close>

text \<open>
  A stand-in for numpy in the concrete runs below: the state counts the draws, every
  draw returns the count, and the rows are taken in reverse order.
\<close>

definition counting_rng :: "nat np_random" where
  "counting_rng =
     \<lparr>seed_state = (\<lambda>s. 0),
      draw = (\<lambda>d g. (of_nat g, Suc g)),
      permutation = (\<lambda>s n. rev [0..<n])\<rparr>"

subsection \<open>Concrete inputs\<close>

text \<open>
  The record of the specification's end-to-end example; a raw training frame of two rows
  whose row 1 holds the same values; and a working directory without
  \<^verbatim>\<open>scaler.joblib\<close>.
\<close>

definition example_input :: ui_input where
  "example_input =
     \<lparr>amount = 120, hour_of_day = 14, day_of_week = ''Tue'', days_since = 2,
      merchant_cat = 0, distance = 15, is_online = False, is_intl = False,
      card_present = True, num_txn_1h = 1, num_txn_24h = 4, avg_amt_30d = 85,
      credit_pct = 0.2, velocity_sc = 0.1, geo_risk_sc = 0.05\<rparr>"

definition example_frame :: "real frame" where
  "example_frame =
     [(''amount'', [950, 120]),
      (''hour_of_day'', [3, 14]),
      (''day_of_week'', [6, 1]),
      (''merchant_category'', [7, 0]),
      (''num_transactions_1h'', [5, 1]),
      (''num_transactions_24h'', [11, 4]),
      (''avg_amount_30d'', [24, 85]),
      (''distance_from_home'', [310, 15]),
      (''is_online'', [1, 0]),
      (''is_international'', [1, 0]),
      (''card_present'', [0, 1]),
      (''days_since_last_txn'', [0.5, 2]),
      (''credit_limit_used_pct'', [0.9, 0.2]),
      (''velocity_score'', [0.8, 0.1]),
      (''geo_risk_score'', [0.7, 0.05]),
      (''is_fraud'', [1, 0])]"


section \<open>Theorems\<close>

subsection \<open>Decision rule\<close>

text \<open>
  C2. The predicted class is fraud (1) exactly when the fraud probability is strictly
  greater than 0.5, and it is legitimate (0) otherwise; at 0.5 itself the class is 0,
  at 0.5000001 it is 1. The rule takes the probability alone: there is no threshold
  argument.
\<close>

theorem prediction_strict_threshold:
  "(prediction p = 1 \<longleftrightarrow> p > 0.5) \<and> (prediction p = 0 \<longleftrightarrow> p \<le> 0.5)
   \<and> prediction 0.5 = 0 \<and> prediction 0.5000001 = 1"
  by (auto simp add: prediction_def)

theorem prediction_strict_threshold_witness:
  "prediction (3/4) = 1 \<and> prediction (1/4) = 0"
  using prediction_strict_threshold [of "3/4"] prediction_strict_threshold [of "1/4"]
  by simp

text \<open>
  C3. The risk tier is LOW below 0.20, MODERATE from 0.20 up to but excluding 0.50, HIGH
  from 0.50 up to but excluding 0.80, and CRITICAL from 0.80 on: each boundary belongs
  to the tier above it. At 0.2 the tier is MODERATE, at 0.1999 it is LOW.
\<close>

theorem risk_tier_intervals:
  "risk_tier p =
     (if p < 0.2 then ''LOW''
      else if 0.2 \<le> p \<and> p < 0.5 then ''MODERATE''
      else if 0.5 \<le> p \<and> p < 0.8 then ''HIGH''
      else ''CRITICAL'')
   \<and> (risk_tier p = ''LOW'' \<longleftrightarrow> p < 0.2)
   \<and> (risk_tier p = ''MODERATE'' \<longleftrightarrow> 0.2 \<le> p \<and> p < 0.5)
   \<and> (risk_tier p = ''HIGH'' \<longleftrightarrow> 0.5 \<le> p \<and> p < 0.8)
   \<and> (risk_tier p = ''CRITICAL'' \<longleftrightarrow> 0.8 \<le> p)
   \<and> risk_tier 0.2 = ''MODERATE'' \<and> risk_tier 0.1999 = ''LOW''
   \<and> risk_tier 0.5 = ''HIGH'' \<and> risk_tier 0.8 = ''CRITICAL''"
  by (simp add: risk_tier_def risk_def)

theorem risk_tier_intervals_witness:
  "risk_tier 0.3 = ''MODERATE'' \<and> risk_tier 0.65 = ''HIGH'' \<and> risk_tier 0.95 = ''CRITICAL''
   \<and> risk_tier 0.05 = ''LOW''"
  using risk_tier_intervals [of "0.3"] risk_tier_intervals [of "0.65"]
    risk_tier_intervals [of "0.95"] risk_tier_intervals [of "0.05"]
  by simp

text \<open>
  C10. Decision and tier agree: whenever the predicted class is fraud, the tier is HIGH
  or CRITICAL; whenever the tier is LOW or MODERATE, the predicted class is legitimate.
\<close>

theorem fraud_decision_implies_high_tier:
  "(prediction p = 1 \<longrightarrow> risk_tier p = ''HIGH'' \<or> risk_tier p = ''CRITICAL'')
   \<and> (risk_tier p = ''LOW'' \<or> risk_tier p = ''MODERATE'' \<longrightarrow> prediction p = 0)"
  by (simp add: prediction_def risk_tier_def risk_def)

theorem fraud_decision_implies_high_tier_witness:
  "prediction 0.9 = 1 \<and> risk_tier 0.9 = ''CRITICAL''
   \<and> risk_tier 0.3 = ''MODERATE'' \<and> prediction 0.3 = 0"
proof -
  have p: "prediction 0.9 = 1" by (simp add: prediction_def)
  have c: "risk_tier 0.9 \<noteq> ''HIGH''" by (simp add: risk_tier_def risk_def)
  have m: "risk_tier 0.3 = ''MODERATE''" by (simp add: risk_tier_def risk_def)
  from fraud_decision_implies_high_tier [of "0.9"] p c
  have "risk_tier 0.9 = ''CRITICAL''" by blast
  moreover from fraud_decision_implies_high_tier [of "0.3"] m
  have "prediction 0.3 = 0" by blast
  ultimately show ?thesis using p m by simp
qed

subsection \<open>Derived features\<close>

lemma cell_SomeD:
  "cell df c i = Some v \<Longrightarrow> \<exists>xs. map_of df c = Some xs \<and> i < length xs \<and> xs ! i = v"
  by (auto simp: cell_def split: option.splits if_splits)

lemma cell_setcol:
  "cell (setcol df c xs) c' i =
     (if c' = c then (if i < length xs then Some (xs ! i) else None) else cell df c' i)"
  by (simp add: cell_def setcol_def update_conv')

lemma nth_col_div:
  "i < length xs \<Longrightarrow> i < length ys \<Longrightarrow> col_div xs ys ! i = np_truediv (xs ! i) (ys ! i)"
  by (simp add: col_div_def)

lemma nth_col_add:
  "i < length xs \<Longrightarrow> i < length ys \<Longrightarrow> col_add xs ys ! i = xs ! i + ys ! i"
  by (simp add: col_add_def)

lemma length_col_ops [simp]:
  "length (col_div xs ys) = min (length xs) (length ys)"
  "length (col_add xs ys) = min (length xs) (length ys)"
  "length (col_add_scalar xs k) = length xs"
  "length (col_div_scalar xs k) = length xs"
  by (simp_all add: col_div_def col_add_def col_add_scalar_def col_div_scalar_def)

lemma nth_col_scalar:
  "i < length xs \<Longrightarrow> col_add_scalar xs k ! i = xs ! i + k"
  "i < length xs \<Longrightarrow> col_div_scalar xs k ! i = np_truediv (xs ! i) k"
  by (simp_all add: col_add_scalar_def col_div_scalar_def)

lemma derived_inference_closed:
  assumes "avg_amt_30d u + 1 \<noteq> 0" "num_txn_24h u + 1 \<noteq> 0"
  shows "derived_inference u =
     Inr (amount u / (avg_amt_30d u + 1),
          of_int (num_txn_1h u) / (of_int (num_txn_24h u) + 1),
          (velocity_sc u + geo_risk_sc u) / 2)"
proof -
  have "(of_int (num_txn_24h u + 1) :: real) \<noteq> 0"
    using assms(2) by simp
  then show ?thesis
    using assms(1) by (simp add: derived_inference_def py_truediv_def)
qed

lemma derived_training_closed:
  assumes h: "row_holds df i u"
    and nz: "avg_amt_30d u + 1 \<noteq> 0" "num_txn_24h u + 1 \<noteq> 0"
  shows "derived_training df i =
     Inr (Some (Some (amount u / (avg_amt_30d u + 1))),
          Some (Some (of_int (num_txn_1h u) / (of_int (num_txn_24h u) + 1))),
          Some (Some ((velocity_sc u + geo_risk_sc u) / 2)))"
proof -
  from h obtain am where am: "map_of df ''amount'' = Some am" "i < length am" "am ! i = amount u"
    unfolding row_holds_def by (blast dest: cell_SomeD)
  from h obtain avg where avg: "map_of df ''avg_amount_30d'' = Some avg" "i < length avg"
      "avg ! i = avg_amt_30d u"
    unfolding row_holds_def by (blast dest: cell_SomeD)
  from h obtain n1 where n1: "map_of df ''num_transactions_1h'' = Some n1" "i < length n1"
      "n1 ! i = of_int (num_txn_1h u)"
    unfolding row_holds_def by (blast dest: cell_SomeD)
  from h obtain n24 where n24: "map_of df ''num_transactions_24h'' = Some n24" "i < length n24"
      "n24 ! i = of_int (num_txn_24h u)"
    unfolding row_holds_def by (blast dest: cell_SomeD)
  from h obtain vel where vel: "map_of df ''velocity_score'' = Some vel" "i < length vel"
      "vel ! i = velocity_sc u"
    unfolding row_holds_def by (blast dest: cell_SomeD)
  from h obtain geo where geo: "map_of df ''geo_risk_score'' = Some geo" "i < length geo"
      "geo ! i = geo_risk_sc u"
    unfolding row_holds_def by (blast dest: cell_SomeD)
  have nz24: "(of_int (num_txn_24h u) :: real) + 1 \<noteq> 0"
  proof
    assume "(of_int (num_txn_24h u) :: real) + 1 = 0"
    then have "(of_int (num_txn_24h u + 1) :: real) = 0" by simp
    then have "num_txn_24h u + 1 = 0" by (simp only: of_int_eq_0_iff)
    with nz(2) show False by simp
  qed
  show ?thesis
    using am avg n1 n24 vel geo nz(1) nz24
    by (simp add: derived_training_def engineer_def getcol_def cell_setcol nth_col_div
        nth_col_add nth_col_scalar np_truediv_def Let_def)
qed

text \<open>
  C1. For a record whose two divisors are not zero, the three derived features computed
  at inference time are \<open>amount / (avg_amount_30d + 1)\<close>,
  \<open>num_transactions_1h / (num_transactions_24h + 1)\<close> and
  \<open>(velocity_score + geo_risk_score) / 2\<close>, and feature engineering at training time
  puts the same three values into the row of the frame that holds the record. (Sliders
  and distributions keep both divisors positive. On a zero divisor the two sides differ:
  Python raises, numpy yields a non-finite cell.)
\<close>

theorem derived_features_closed_form:
  assumes "row_holds df i u" and "avg_amt_30d u + 1 \<noteq> 0" and "num_txn_24h u + 1 \<noteq> 0"
  shows "derived_inference u =
           Inr (amount u / (avg_amt_30d u + 1),
                of_int (num_txn_1h u) / (of_int (num_txn_24h u) + 1),
                (velocity_sc u + geo_risk_sc u) / 2)
       \<and> derived_training df i =
           Inr (Some (Some (amount u / (avg_amt_30d u + 1))),
                Some (Some (of_int (num_txn_1h u) / (of_int (num_txn_24h u) + 1))),
                Some (Some ((velocity_sc u + geo_risk_sc u) / 2)))"
  using derived_inference_closed [OF assms(2,3)] derived_training_closed [OF assms] by simp

theorem derived_features_closed_form_witness:
  "derived_inference example_input = Inr (120 / 86, 1 / 5, 0.075)
   \<and> derived_training example_frame 1 =
       Inr (Some (Some (120 / 86)), Some (Some (1 / 5)), Some (Some 0.075))"
proof -
  have h: "row_holds example_frame 1 example_input"
    by (simp add: row_holds_def cell_def example_frame_def example_input_def)
  have a: "avg_amt_30d example_input + 1 \<noteq> 0" by (simp add: example_input_def)
  have b: "num_txn_24h example_input + 1 \<noteq> 0" by (simp add: example_input_def)
  show ?thesis
    using derived_features_closed_form [OF h a b] by (simp add: example_input_def)
qed

subsection \<open>Missing artifacts\<close>


lemma load_artifacts_present:
  assumes "fraud_model_joblib fs = Some m" "scaler_joblib fs = Some s"
    "feature_names_joblib fs = Some f"
  shows "load_artifacts fs = Inr (m, s, f)"
  using assms by (simp add: load_artifacts_def joblib_load_def)



subsection \<open>Feature vector\<close>

lemma FEATURES_shape: "length FEATURES = 18 \<and> distinct FEATURES"
  by (simp add: FEATURES_def)

lemma input_data_keys:
  assumes "input_data u d = Inr row"
  shows "map fst row = FEATURES"
  using assms
  by (auto simp: input_data_def FEATURES_def split: prod.splits option.splits)

lemma select_all_present:
  assumes "distinct (map fst row)"
  shows "select_columns row (map fst row) = Inr (map snd row)"
proof -
  have p: "\<And>f. f \<in> set (map fst row) \<Longrightarrow> map_of row f \<noteq> None"
    by (simp add: map_of_eq_None_iff)
  then have "filter (\<lambda>f. map_of row f = None) (map fst row) = []"
    by (simp add: filter_empty_conv)
  moreover have "map (\<lambda>f. the (map_of row f)) (map fst row) = map snd row"
    using assms by (induction row) (auto simp: rev_image_eqI)
  ultimately show ?thesis by (simp add: select_columns_def)
qed

lemma select_missing:
  assumes "f \<in> set feats" "map_of row f = None"
  shows "\<exists>ms. ms \<noteq> [] \<and> set ms \<subseteq> set feats \<and> f \<in> set ms
           \<and> select_columns row feats = Inl (KeyError ms)"
proof -
  define ms where "ms = filter (\<lambda>f. map_of row f = None) feats"
  have "f \<in> set ms" using assms by (simp add: ms_def)
  moreover from this have "ms \<noteq> []" by auto
  moreover have "set ms \<subseteq> set feats" by (auto simp: ms_def)
  moreover have "select_columns row feats = Inl (KeyError ms)"
    using \<open>ms \<noteq> []\<close> by (simp add: select_columns_def ms_def [symmetric])
  ultimately show ?thesis by blast
qed

lemma select_Inr:
  assumes "select_columns row feats = Inr x"
  shows "x = map (\<lambda>f. the (map_of row f)) feats \<and> list_all (\<lambda>f. map_of row f \<noteq> None) feats"
  using assms
  by (auto simp: select_columns_def Let_def list_all_iff filter_empty_conv split: if_splits)

text \<open>
  C4. The 18 feature names of training, in their order, are the keys of the record
  assembled at inference time, and selecting the persisted list from that record yields
  its 18 values in that order. When a name of the persisted list is not a field of the
  record, selection raises \<open>KeyError\<close> naming the missing fields and nothing is scored;
  a verdict exists only when every name was found, and it is computed from the values
  in the order of the persisted list.
\<close>

theorem feature_vector_matches_training_order:
  "length FEATURES = 18 \<and> distinct FEATURES
   \<and> (input_data u d = Inr row \<longrightarrow>
        map fst row = FEATURES \<and> select_columns row FEATURES = Inr (map snd row))
   \<and> (f \<in> set feats \<and> map_of row' f = None \<longrightarrow>
        (\<exists>ms. ms \<noteq> [] \<and> f \<in> set ms \<and> select_columns row' feats = Inl (KeyError ms)
              \<and> score_row model scaler feats row' = Inl (KeyError ms)))
   \<and> (score_row model scaler feats row' = Inr v \<longrightarrow>
        list_all (\<lambda>f. map_of row' f \<noteq> None) feats
        \<and> prob_fraud v = snd (model (scaler (map (\<lambda>f. the (map_of row' f)) feats))))"
proof -
  have a: "input_data u d = Inr row \<longrightarrow>
        map fst row = FEATURES \<and> select_columns row FEATURES = Inr (map snd row)"
  proof
    assume h: "input_data u d = Inr row"
    then have k: "map fst row = FEATURES" by (rule input_data_keys)
    then have "distinct (map fst row)" using FEATURES_shape by simp
    then have "select_columns row (map fst row) = Inr (map snd row)" by (rule select_all_present)
    with k show "map fst row = FEATURES \<and> select_columns row FEATURES = Inr (map snd row)"
      by simp
  qed
  have b: "f \<in> set feats \<and> map_of row' f = None \<longrightarrow>
        (\<exists>ms. ms \<noteq> [] \<and> f \<in> set ms \<and> select_columns row' feats = Inl (KeyError ms)
              \<and> score_row model scaler feats row' = Inl (KeyError ms))"
  proof
    assume "f \<in> set feats \<and> map_of row' f = None"
    then obtain ms where "ms \<noteq> []" "f \<in> set ms" "select_columns row' feats = Inl (KeyError ms)"
      using select_missing [of f feats row'] by blast
    then show "\<exists>ms. ms \<noteq> [] \<and> f \<in> set ms \<and> select_columns row' feats = Inl (KeyError ms)
              \<and> score_row model scaler feats row' = Inl (KeyError ms)"
      by (auto simp: score_row_def)
  qed
  have c: "score_row model scaler feats row' = Inr v \<longrightarrow>
        list_all (\<lambda>f. map_of row' f \<noteq> None) feats
        \<and> prob_fraud v = snd (model (scaler (map (\<lambda>f. the (map_of row' f)) feats)))"
  proof
    assume h: "score_row model scaler feats row' = Inr v"
    then obtain x where x: "select_columns row' feats = Inr x"
      by (auto simp: score_row_def split: sum.splits)
    from select_Inr [OF x] h x
    show "list_all (\<lambda>f. map_of row' f \<noteq> None) feats
        \<and> prob_fraud v = snd (model (scaler (map (\<lambda>f. the (map_of row' f)) feats)))"
      by (auto simp: score_row_def Let_def)
  qed
  from FEATURES_shape a b c show ?thesis by blast
qed

theorem feature_vector_matches_training_order_witness:
  "(\<exists>row. input_data example_input (120 / 86, 1 / 5, 0.075) = Inr row
       \<and> map fst row = FEATURES \<and> select_columns row FEATURES = Inr (map snd row))
   \<and> (\<exists>ms. ms \<noteq> [] \<and> ''txn_burst'' \<in> set ms
       \<and> score_row (\<lambda>x. (1, 0)) (\<lambda>x. x) FEATURES [(''amount'', 120)] = Inl (KeyError ms))"
proof -
  obtain row where r: "input_data example_input (120 / 86, 1 / 5, 0.075) = Inr row"
    by (simp add: input_data_def example_input_def dow_map_def)
  have m: "''txn_burst'' \<in> set FEATURES \<and> map_of [(''amount'', 120::real)] ''txn_burst'' = None"
    by (simp add: FEATURES_def)
  from feature_vector_matches_training_order
    [of example_input "(120 / 86, 1 / 5, 0.075)" row "''txn_burst''" FEATURES
        "[(''amount'', 120)]" "\<lambda>x. (1, 0)" "\<lambda>x. x"] r m
  show ?thesis by blast
qed

subsection \<open>Data generation\<close>

lemma length_draws: "length (fst (draws dr d n g)) = n"
proof (induction n arbitrary: g)
  case 0
  then show ?case by simp
next
  case (Suc n)
  obtain x g1 where a: "dr d g = (x, g1)" by (cases "dr d g")
  obtain xs g2 where b: "draws dr d n g1 = (xs, g2)" by (cases "draws dr d n g1")
  have "length xs = n" using Suc.IH [of g1] b by simp
  then show ?case using a b by simp
qed

lemma make_columns_names: "map fst (fst (make_columns dr cs n g)) = map fst cs"
proof (induction cs arbitrary: g)
  case Nil
  then show ?case by simp
next
  case (Cons a cs)
  obtain c d where a: "a = (c, d)" by (cases a)
  obtain xs g1 where d: "draws dr d n g = (xs, g1)" by (cases "draws dr d n g")
  obtain df g2 where m: "make_columns dr cs n g1 = (df, g2)" by (cases "make_columns dr cs n g1")
  have "map fst df = map fst cs" using Cons.IH [of g1] m by simp
  then show ?case using a d m by simp
qed

lemma make_columns_lengths:
  "list_all (\<lambda>p. length (snd p) = n) (fst (make_columns dr cs n g))"
proof (induction cs arbitrary: g)
  case Nil
  then show ?case by simp
next
  case (Cons a cs)
  obtain c d where a: "a = (c, d)" by (cases a)
  obtain xs g1 where d: "draws dr d n g = (xs, g1)" by (cases "draws dr d n g")
  obtain df g2 where m: "make_columns dr cs n g1 = (df, g2)" by (cases "make_columns dr cs n g1")
  have "length xs = n" using length_draws [of dr d n g] d by simp
  moreover have "list_all (\<lambda>p. length (snd p) = n) df" using Cons.IH [of g1] m by simp
  ultimately show ?case using a d m by simp
qed

lemma update_fresh: "k \<notin> fst ` set al \<Longrightarrow> AList.update k v al = al @ [(k, v)]"
  by (induction al) auto

lemma nrows_all:
  "list_all (\<lambda>p. length (snd p) = n) df \<Longrightarrow> df \<noteq> [] \<Longrightarrow> nrows df = n"
  by (cases df) (auto simp: nrows_def)

lemma concat_frames_append:
  "length a = length b \<Longrightarrow>
   concat_frames (a @ [(c, xs)]) (b @ [(c', ys)]) = concat_frames a b @ [(c, xs @ ys)]"
  by (simp add: concat_frames_def)

lemma concat_frames_names:
  "length a = length b \<Longrightarrow> map fst (concat_frames a b) = map fst a"
  by (induction a b rule: list_induct2) (auto simp: concat_frames_def)

lemma concat_frames_lengths:
  "length a = length b \<Longrightarrow> list_all (\<lambda>p. length (snd p) = m) a \<Longrightarrow>
   list_all (\<lambda>p. length (snd p) = k) b \<Longrightarrow>
   list_all (\<lambda>p. length (snd p) = m + k) (concat_frames a b)"
  by (induction a b rule: list_induct2) (auto simp: concat_frames_def)

lemma perm_in_range:
  assumes "mset idx = mset [0..<n]"
  shows "list_all (\<lambda>i. i < n) idx"
proof -
  have "set idx = set [0..<n]" using assms by (rule mset_eq_setD)
  then show ?thesis by (auto simp: list_all_iff)
qed

lemma mset_take_perm:
  assumes "mset idx = mset [0..<length xs]"
  shows "mset (map (\<lambda>i. xs ! i) idx) = mset xs"
proof -
  have "mset (map (\<lambda>i. xs ! i) idx) = image_mset (\<lambda>i. xs ! i) (mset idx)" by simp
  also have "\<dots> = image_mset (\<lambda>i. xs ! i) (mset [0..<length xs])" using assms by simp
  also have "\<dots> = mset (map (\<lambda>i. xs ! i) [0..<length xs])" by simp
  also have "\<dots> = mset xs" by (simp add: map_nth)
  finally show ?thesis .
qed

lemma py_int_bounds:
  assumes "0 < n" "0 < r" "r < 1"
  shows "0 \<le> py_int (of_int n * r) \<and> py_int (of_int n * r) < n"
proof -
  have pos: "0 < of_int n * r" using assms by simp
  have lt: "of_int n * r < of_int n" using assms by simp
  have "py_int (of_int n * r) = \<lfloor>of_int n * r\<rfloor>" using pos by (simp add: py_int_def)
  moreover have "0 \<le> \<lfloor>of_int n * r\<rfloor>" using pos by simp
  moreover have "\<lfloor>of_int n * r\<rfloor> < n" using lt by (simp add: floor_less_iff)
  ultimately show ?thesis by simp
qed

lemma py_int_round: "\<bar>py_int x - round x\<bar> \<le> 1"
proof -
  have "\<lfloor>x\<rfloor> \<le> round x" by (simp add: round_def floor_mono)
  moreover have "round x \<le> \<lfloor>x\<rfloor> + 1" unfolding round_def by linarith
  moreover have "\<lfloor>x\<rfloor> \<le> \<lceil>x\<rceil>" by (simp add: floor_le_ceiling) 
  moreover have "\<lceil>x\<rceil> \<le> \<lfloor>x\<rfloor> + 1" by (simp add: ceiling_le_iff)
  moreover have "round x \<le> \<lceil>x\<rceil>" unfolding round_def by linarith
  ultimately show ?thesis by (auto simp: py_int_def)
qed

lemma columns_same_names: "map fst fraud_columns = map fst legit_columns"
  by (simp add: fraud_columns_def legit_columns_def)

lemma is_fraud_fresh: "''is_fraud'' \<notin> set (map fst legit_columns)"
  by (simp add: legit_columns_def)

lemma legit_columns_nonempty: "legit_columns \<noteq> []"
  by (simp add: legit_columns_def)

lemma map_of_snoc_fresh:
  "k \<notin> fst ` set al \<Longrightarrow> map_of (al @ [(k, v)]) k = Some v"
  by (induction al) auto

lemma population_ok:
  fixes n :: int and r :: real and np :: "'g np_random"
  defines "nfi \<equiv> py_int (of_int n * r)"
  assumes nl: "0 \<le> n - nfi" and nf: "0 \<le> nfi"
  shows "\<exists>both. population np n r g = Inr both
           \<and> map fst both = map fst legit_columns @ [''is_fraud'']
           \<and> list_all (\<lambda>p. length (snd p) = nat n) both
           \<and> map_of both ''is_fraud''
               = Some (replicate (nat (n - nfi)) 0 @ replicate (nat nfi) 1)"
proof -
  define kl where "kl = nat (n - nfi)"
  define kf where "kf = nat nfi"
  obtain A g1 where A: "make_columns (draw np) legit_columns kl g = (A, g1)"
    by (cases "make_columns (draw np) legit_columns kl g")
  obtain B g2 where B: "make_columns (draw np) fraud_columns kf g1 = (B, g2)"
    by (cases "make_columns (draw np) fraud_columns kf g1")
  have namesA: "map fst A = map fst legit_columns"
    using make_columns_names [of "draw np" legit_columns kl g] A by simp
  have namesB: "map fst B = map fst legit_columns"
    using make_columns_names [of "draw np" fraud_columns kf g1] B columns_same_names by simp
  have lenA: "list_all (\<lambda>p. length (snd p) = kl) A"
    using make_columns_lengths [of kl "draw np" legit_columns g] A by simp
  have lenB: "list_all (\<lambda>p. length (snd p) = kf) B"
    using make_columns_lengths [of kf "draw np" fraud_columns g1] B by simp
  have neA: "A \<noteq> []" using namesA legit_columns_nonempty by auto
  have neB: "B \<noteq> []" using namesB legit_columns_nonempty by auto
  have rowsA: "nrows A = kl" using lenA neA by (rule nrows_all)
  have rowsB: "nrows B = kf" using lenB neB by (rule nrows_all)
  have freshA: "''is_fraud'' \<notin> fst ` set A"
    using is_fraud_fresh namesA by (metis set_map)
  have freshB: "''is_fraud'' \<notin> fst ` set B"
    using is_fraud_fresh namesB by (metis set_map)
  define la where "la = replicate kl (0::real)"
  define lb where "lb = replicate kf (1::real)"
  have setA: "setcol A ''is_fraud'' la = A @ [(''is_fraud'', la)]"
    using freshA by (simp add: setcol_def update_fresh)
  have setB: "setcol B ''is_fraud'' lb = B @ [(''is_fraud'', lb)]"
    using freshB by (simp add: setcol_def update_fresh)
  have lenAB: "length A = length B"
    using namesA namesB by (metis length_map)
  define both where "both = concat_frames (A @ [(''is_fraud'', la)]) (B @ [(''is_fraud'', lb)])"
  have both: "both = concat_frames A B @ [(''is_fraud'', la @ lb)]"
    unfolding both_def using lenAB by (rule concat_frames_append)
  have namesAB: "map fst (concat_frames A B) = map fst legit_columns"
    using concat_frames_names [OF lenAB] namesA by simp
  have lensAB: "list_all (\<lambda>p. length (snd p) = kl + kf) (concat_frames A B)"
    using lenAB lenA lenB by (rule concat_frames_lengths)
  have total: "kl + kf = nat n"
    using nl nf by (simp add: kl_def kf_def)
  have lens_both: "list_all (\<lambda>p. length (snd p) = nat n) both"
    using lensAB total by (simp add: both la_def lb_def)
  have pop: "population np n r g = Inr both"
    using nl nf A B setA setB rowsA rowsB
    by (simp add: population_def make_legit_def make_fraud_def Let_def nfi_def [symmetric]
        kl_def [symmetric] kf_def [symmetric] la_def [symmetric] lb_def [symmetric]
        both_def [symmetric])
  have names: "map fst both = map fst legit_columns @ [''is_fraud'']"
    using namesAB by (simp add: both)
  have fresh_both: "''is_fraud'' \<notin> fst ` set (concat_frames A B)"
    using is_fraud_fresh namesAB by (metis set_map)
  have "map_of both ''is_fraud'' = Some (la @ lb)"
    unfolding both using fresh_both by (rule map_of_snoc_fresh)
  then have lab: "map_of both ''is_fraud''
      = Some (replicate (nat (n - nfi)) 0 @ replicate (nat nfi) 1)"
    by (simp add: la_def lb_def kl_def kf_def)
  from pop names lens_both lab show ?thesis by blast
qed

lemma sample_all_ok:
  assumes lens: "list_all (\<lambda>p. length (snd p) = m) both" and ne: "both \<noteq> []"
    and perm: "mset (permutation np s m) = mset [0..<m]"
  shows "sample_all np s both
           = Inr (map (\<lambda>(c, xs). (c, map (\<lambda>i. xs ! i) (permutation np s m))) both)"
proof -
  have rows: "nrows both = m" using lens ne by (rule nrows_all)
  have "list_all (\<lambda>i. i < nrows both) (permutation np s m)"
    using perm_in_range [OF perm] rows by simp
  then show ?thesis by (simp add: sample_all_def take_rows_def rows)
qed

lemma generate_run:
  fixes n :: int and r :: real and np :: "'g np_random"
  defines "nfi \<equiv> py_int (of_int n * r)"
  assumes nl: "0 \<le> n - nfi" and nf: "0 \<le> nfi"
    and perm: "mset (permutation np rs (nat n)) = mset [0..<nat n]"
  shows "\<exists>both. population np n r (seed_state np seed) = Inr both
           \<and> map fst both = map fst legit_columns @ [''is_fraud'']
           \<and> list_all (\<lambda>p. length (snd p) = nat n) both
           \<and> map_of both ''is_fraud''
               = Some (replicate (nat (n - nfi)) 0 @ replicate (nat nfi) 1)
           \<and> generate np n r seed rs g0
               = Inr (map (\<lambda>(c, xs). (c, map (\<lambda>i. xs ! i) (permutation np rs (nat n)))) both)"
proof -
  from population_ok [of n r np "seed_state np seed"] nl nf
  obtain both where pop: "population np n r (seed_state np seed) = Inr both"
    and names: "map fst both = map fst legit_columns @ [''is_fraud'']"
    and lens: "list_all (\<lambda>p. length (snd p) = nat n) both"
    and lab: "map_of both ''is_fraud''
        = Some (replicate (nat (n - nfi)) 0 @ replicate (nat nfi) 1)"
    unfolding nfi_def by blast
  have ne: "both \<noteq> []" using names by auto
  have "generate np n r seed rs g0 = sample_all np rs both"
    using pop by (simp add: generate_def np_random_seed_def)
  also have "\<dots> = Inr (map (\<lambda>(c, xs). (c, map (\<lambda>i. xs ! i) (permutation np rs (nat n)))) both)"
    using lens ne perm by (rule sample_all_ok)
  finally show ?thesis using pop names lens lab by blast
qed

lemma generate_ok:
  fixes n :: int and r :: real and np :: "'g np_random"
  defines "nfi \<equiv> py_int (of_int n * r)"
  assumes nl: "0 \<le> n - nfi" and nf: "0 \<le> nfi"
    and perm: "mset (permutation np rs (nat n)) = mset [0..<nat n]"
  shows "\<exists>df lab. generate np n r seed rs g0 = Inr df
           \<and> map fst df = map fst legit_columns @ [''is_fraud'']
           \<and> list_all (\<lambda>p. length (snd p) = nat n) df
           \<and> map_of df ''is_fraud'' = Some lab
           \<and> mset lab = mset (replicate (nat (n - nfi)) 0 @ replicate (nat nfi) 1)"
proof -
  define idx where "idx = permutation np rs (nat n)"
  have idx: "mset idx = mset [0..<nat n]" using perm by (simp add: idx_def)
  from generate_run [of n r np rs seed g0] nl nf perm
  obtain both where names0: "map fst both = map fst legit_columns @ [''is_fraud'']"
    and lab0: "map_of both ''is_fraud''
        = Some (replicate (nat (n - nfi)) 0 @ replicate (nat nfi) 1)"
    and gen0: "generate np n r seed rs g0
        = Inr (map (\<lambda>(c, xs). (c, map (\<lambda>i. xs ! i) idx)) both)"
    unfolding nfi_def idx_def by blast
  define df where "df = map (\<lambda>(c, xs). (c, map (\<lambda>i. xs ! i) idx)) both"
  define l0 where "l0 = replicate (nat (n - nfi)) (0::real) @ replicate (nat nfi) 1"
  have gen: "generate np n r seed rs g0 = Inr df" using gen0 by (simp add: df_def)
  have names: "map fst df = map fst legit_columns @ [''is_fraud'']"
    using names0 by (simp add: df_def case_prod_unfold comp_def)
  have len_idx: "length idx = nat n"
    using idx by (metis size_mset length_upt diff_zero)
  have lens: "list_all (\<lambda>p. length (snd p) = nat n) df"
    using len_idx by (simp add: df_def list_all_iff case_prod_unfold)
  have lab: "map_of df ''is_fraud'' = Some (map (\<lambda>i. l0 ! i) idx)"
    using lab0 by (simp add: df_def map_of_map l0_def)
  have L: "length l0 = nat n" using nl nf by (simp add: l0_def)
  have "mset idx = mset [0..<length l0]" by (simp only: L idx)
  then have "mset (map (\<lambda>i. l0 ! i) idx) = mset l0" by (rule mset_take_perm)
  then have "mset (map (\<lambda>i. l0 ! i) idx)
      = mset (replicate (nat (n - nfi)) 0 @ replicate (nat nfi) 1)"
    by (simp add: l0_def)
  with gen names lens lab show ?thesis by blast
qed

lemma generate_error:
  assumes "n - py_int (of_int n * r) < 0 \<or> py_int (of_int n * r) < 0"
  shows "generate np n r seed rs g0 = Inl ValueError"
  using assms
  by (auto simp: generate_def population_def make_legit_def make_fraud_def Let_def
      split: prod.splits)

lemma cell_take_rows:
  assumes lens: "list_all (\<lambda>p. length (snd p) = m) both"
    and rng: "list_all (\<lambda>i. i < m) idx" and i: "i < length idx"
  shows "cell (map (\<lambda>(c, xs). (c, map (\<lambda>i. xs ! i) idx)) both) c i = cell both c (idx ! i)"
proof (cases "map_of both c")
  case None
  then show ?thesis by (simp add: cell_def map_of_map)
next
  case (Some xs)
  then have "(c, xs) \<in> set both" by (rule map_of_SomeD)
  then have "length xs = m" using lens by (auto simp: list_all_iff)
  moreover have "idx ! i < m" using rng i by (simp add: list_all_length)
  ultimately show ?thesis using Some i by (simp add: cell_def map_of_map)
qed

lemma cell_labels:
  assumes "map_of both ''is_fraud'' = Some (replicate a (0::real) @ replicate b 1)"
    and "j < a + b"
  shows "cell both ''is_fraud'' j = Some (if j < a then 0 else 1)"
  using assms by (simp add: cell_def nth_append)

text \<open>
  Without the seeding statement the rows do depend on the state the generator is in:
  the same code, started in two different states, draws two different tables.
\<close>

lemma population_depends_on_state:
  "population counting_rng 2 0 0 \<noteq> population counting_rng 2 0 7"
  by (simp add: population_def make_legit_def make_fraud_def legit_columns_def
      fraud_columns_def counting_rng_def py_int_def setcol_def nrows_def concat_frames_def
      eval_nat_numeral Let_def)

lemma count_list_replicate: "count_list (replicate k x) y = (if x = y then k else 0)"
  by (induction k) auto

lemma counting_rng_perm: "mset (permutation counting_rng s k) = mset [0..<k]"
  by (simp add: counting_rng_def)

text \<open>
  C5. For a count \<open>n > 0\<close> and a rate \<open>0 < r < 1\<close>, and a library whose \<open>sample\<close>
  returns the row positions in some order, generation succeeds with a table of exactly
  \<open>n\<close> rows and 16 columns, the 15 raw fields and the label \<open>is_fraud\<close>; the label is
  0 or 1 in every row, the rows labelled 1 number \<open>int(n * r)\<close>, the integer part of
  \<open>n * r\<close>, which differs from \<open>round(n * r)\<close> by at most one, and the remaining rows are
  labelled 0. (In floating point the product may round up to the next integer; the
  count is then \<open>round(n * r)\<close> itself.)
\<close>

theorem generator_row_and_label_counts:
  assumes "0 < n" and "0 < r" and "r < 1"
    and "mset (permutation np shuffle_seed (nat n)) = mset [0..<nat n]"
  shows "\<exists>df lab. generate np n r seed shuffle_seed g0 = Inr df
      \<and> nrows df = nat n
      \<and> list_all (\<lambda>p. length (snd p) = nat n) df
      \<and> map fst df = map fst legit_columns @ [''is_fraud''] \<and> length df = 16
      \<and> getcol df ''is_fraud'' = Inr lab
      \<and> set lab \<subseteq> {0, 1}
      \<and> int (count_list lab 1) = py_int (of_int n * r)
      \<and> int (count_list lab 0) = n - py_int (of_int n * r)
      \<and> py_int (of_int n * r) = \<lfloor>of_int n * r\<rfloor>
      \<and> \<bar>py_int (of_int n * r) - round (of_int n * r)\<bar> \<le> 1"
proof -
  define k where "k = py_int (of_int n * r)"
  have b: "0 \<le> k \<and> k < n" unfolding k_def using assms(1-3) by (rule py_int_bounds)
  then have nl: "0 \<le> n - py_int (of_int n * r)" and nf: "0 \<le> py_int (of_int n * r)"
    by (simp_all add: k_def)
  from generate_ok [OF nl nf assms(4), of seed g0]
  obtain df lab where g: "generate np n r seed shuffle_seed g0 = Inr df"
    and names: "map fst df = map fst legit_columns @ [''is_fraud'']"
    and lens: "list_all (\<lambda>p. length (snd p) = nat n) df"
    and lab: "map_of df ''is_fraud'' = Some lab"
    and ms: "mset lab = mset (replicate (nat (n - k)) 0 @ replicate (nat k) 1)"
    unfolding k_def by blast
  have ne: "df \<noteq> []" using names by auto
  have rows: "nrows df = nat n" using lens ne by (rule nrows_all)
  have "length (map fst df) = 16" unfolding names by (simp add: legit_columns_def)
  then have len: "length df = 16" by simp
  have gc: "getcol df ''is_fraud'' = Inr lab" using lab by (simp add: getcol_def)
  have "set lab = set (replicate (nat (n - k)) (0::real) @ replicate (nat k) 1)"
    using ms by (rule mset_eq_setD)
  then have sub: "set lab \<subseteq> {0, 1}" by auto
  have c: "\<And>x. count_list lab x = count_list (replicate (nat (n - k)) 0 @ replicate (nat k) 1) x"
    using ms by (metis count_mset)
  have c1: "int (count_list lab 1) = k" using b by (simp add: c count_list_replicate)
  have c0: "int (count_list lab 0) = n - k" using b by (simp add: c count_list_replicate)
  have fl: "k = \<lfloor>of_int n * r\<rfloor>"
    using assms(1,2) by (simp add: k_def py_int_def)
  have rd: "\<bar>k - round (of_int n * r)\<bar> \<le> 1" unfolding k_def by (rule py_int_round)
  from g rows lens names len gc sub c1 c0 fl rd show ?thesis unfolding k_def by blast
qed

theorem generator_row_and_label_counts_witness:
  "\<exists>df lab. generate counting_rng 5 (2 / 5) 42 42 0 = Inr df \<and> nrows df = 5
      \<and> length df = 16 \<and> getcol df ''is_fraud'' = Inr lab
      \<and> count_list lab 1 = 2 \<and> count_list lab 0 = 3"
proof -
  have p: "mset (permutation counting_rng 42 (nat 5)) = mset [0..<nat 5]"
    by (rule counting_rng_perm)
  have k: "py_int (of_int 5 * (2 / 5)) = 2" by (simp add: py_int_def)
  from generator_row_and_label_counts [of 5 "2 / 5" counting_rng 42 42 0, OF _ _ _ p]
  obtain df lab where "generate counting_rng 5 (2 / 5) 42 42 0 = Inr df" "nrows df = nat 5"
    "length df = 16" "getcol df ''is_fraud'' = Inr lab"
    "int (count_list lab 1) = py_int (of_int 5 * (2 / 5))"
    "int (count_list lab 0) = 5 - py_int (of_int 5 * (2 / 5))"
    by auto
  then show ?thesis using k by auto
qed

text \<open>
  C6. Two runs of the generator with the same count, rate and seeds return the same
  table, cell for cell, whatever state the global generator was in before each run: the
  first statement seeds it, and every draw continues from there. For a valid count and
  rate, and a library whose \<open>sample\<close> returns the row positions in some order, the table
  both runs return has \<open>n\<close> rows, and its row \<open>i\<close> is the row of the concatenated
  populations at the position the shuffle seed's permutation has at \<open>i\<close>; there the
  legitimate rows, labelled 0, come first and the fraudulent ones, labelled 1, after them.
  So the shuffled order is the permutation of the shuffle seed, the same in both runs.
  The same holds for two runs of the script.
\<close>

theorem generator_deterministic:
  "generate np n r seed shuffle_seed g0 = generate np n r seed shuffle_seed g0'
   \<and> train_model_dataset np argv g0 = train_model_dataset np argv' g0'
   \<and> (0 < n \<and> 0 < r \<and> r < 1
        \<and> mset (permutation np shuffle_seed (nat n)) = mset [0..<nat n] \<longrightarrow>
       (\<exists>df both.
           generate np n r seed shuffle_seed g0 = Inr df
         \<and> generate np n r seed shuffle_seed g0' = Inr df
         \<and> population np n r (np_random_seed np seed g0) = Inr both
         \<and> population np n r (np_random_seed np seed g0') = Inr both
         \<and> nrows df = nat n
         \<and> (\<forall>c i. i < nat n \<longrightarrow>
               cell df c i = cell both c (permutation np shuffle_seed (nat n) ! i))
         \<and> (\<forall>j. j < nat n \<longrightarrow>
               cell both ''is_fraud'' j
                 = Some (if int j < n - py_int (of_int n * r) then 0 else 1))))"
proof -
  have a: "generate np n r seed shuffle_seed g0 = generate np n r seed shuffle_seed g0'"
    by (simp add: generate_def np_random_seed_def)
  have b: "train_model_dataset np argv g0 = train_model_dataset np argv' g0'"
    by (simp add: train_model_dataset_def generate_def np_random_seed_def)
  have c: "\<exists>df both.
           generate np n r seed shuffle_seed g0 = Inr df
         \<and> generate np n r seed shuffle_seed g0' = Inr df
         \<and> population np n r (np_random_seed np seed g0) = Inr both
         \<and> population np n r (np_random_seed np seed g0') = Inr both
         \<and> nrows df = nat n
         \<and> (\<forall>c i. i < nat n \<longrightarrow>
               cell df c i = cell both c (permutation np shuffle_seed (nat n) ! i))
         \<and> (\<forall>j. j < nat n \<longrightarrow>
               cell both ''is_fraud'' j
                 = Some (if int j < n - py_int (of_int n * r) then 0 else 1))"
    if h: "0 < n \<and> 0 < r \<and> r < 1
        \<and> mset (permutation np shuffle_seed (nat n)) = mset [0..<nat n]"
  proof -
    define k where "k = py_int (of_int n * r)"
    define idx where "idx = permutation np shuffle_seed (nat n)"
    have bd: "0 \<le> k \<and> k < n" unfolding k_def using h py_int_bounds [of n r] by blast
    then have nl: "0 \<le> n - py_int (of_int n * r)" and nf: "0 \<le> py_int (of_int n * r)"
      by (simp_all add: k_def)
    have perm: "mset idx = mset [0..<nat n]" using h by (simp add: idx_def)
    from generate_run [of n r np shuffle_seed seed g0] nl nf perm
    obtain both where pop: "population np n r (seed_state np seed) = Inr both"
      and names: "map fst both = map fst legit_columns @ [''is_fraud'']"
      and lens: "list_all (\<lambda>p. length (snd p) = nat n) both"
      and lab: "map_of both ''is_fraud'' = Some (replicate (nat (n - k)) 0 @ replicate (nat k) 1)"
      and gen: "generate np n r seed shuffle_seed g0
          = Inr (map (\<lambda>(c, xs). (c, map (\<lambda>i. xs ! i) idx)) both)"
      unfolding k_def idx_def by blast
    define df where "df = map (\<lambda>(c, xs). (c, map (\<lambda>i. xs ! i) idx)) both"
    have g1: "generate np n r seed shuffle_seed g0 = Inr df" using gen by (simp add: df_def)
    have g2: "generate np n r seed shuffle_seed g0' = Inr df" using g1 a by simp
    have p1: "population np n r (np_random_seed np seed g0) = Inr both"
      using pop by (simp add: np_random_seed_def)
    have p2: "population np n r (np_random_seed np seed g0') = Inr both"
      using pop by (simp add: np_random_seed_def)
    have len_idx: "length idx = nat n"
      using perm by (metis size_mset length_upt diff_zero)
    have rng: "list_all (\<lambda>i. i < nat n) idx" using perm by (rule perm_in_range)
    have ne: "df \<noteq> []" using names by (auto simp: df_def)
    have "list_all (\<lambda>p. length (snd p) = nat n) df"
      using len_idx by (simp add: df_def list_all_iff case_prod_unfold)
    then have rows: "nrows df = nat n" using ne by (rule nrows_all)
    have cells: "\<forall>c i. i < nat n \<longrightarrow> cell df c i = cell both c (idx ! i)"
      using cell_take_rows [OF lens rng] len_idx by (simp add: df_def)
    have "0 \<le> n - k" and "0 \<le> k" using bd by simp_all
    then have tot: "nat (n - k) + nat k = nat n" by linarith
    have labels: "\<forall>j. j < nat n \<longrightarrow>
        cell both ''is_fraud'' j = Some (if int j < n - k then 0 else 1)"
    proof (intro allI impI)
      fix j assume "j < nat n"
      then have "j < nat (n - k) + nat k" using tot by simp
      from cell_labels [OF lab this]
      have "cell both ''is_fraud'' j = Some (if j < nat (n - k) then 0 else 1)" .
      moreover have "j < nat (n - k) \<longleftrightarrow> int j < n - k" using bd by auto
      ultimately show "cell both ''is_fraud'' j = Some (if int j < n - k then 0 else 1)"
        by simp
    qed
    from g1 g2 p1 p2 rows cells labels show ?thesis unfolding k_def idx_def by blast
  qed
  from a b c show ?thesis by blast
qed

theorem generator_deterministic_witness:
  "\<exists>df. generate counting_rng 5 (2 / 5) 42 42 0 = Inr df
      \<and> generate counting_rng 5 (2 / 5) 42 42 7 = Inr df
      \<and> nrows df = 5
      \<and> cell df ''is_fraud'' 0 = Some 1 \<and> cell df ''is_fraud'' 1 = Some 1
      \<and> cell df ''is_fraud'' 2 = Some 0 \<and> cell df ''is_fraud'' 3 = Some 0
      \<and> cell df ''is_fraud'' 4 = Some 0"
proof -
  have h: "0 < (5::int) \<and> 0 < (2 / 5 :: real) \<and> (2 / 5 :: real) < 1
      \<and> mset (permutation counting_rng 42 (nat 5)) = mset [0..<nat 5]"
    using counting_rng_perm [of 42 "nat 5"] by simp
  have k: "py_int (of_int 5 * (2 / 5)) = 2" by (simp add: py_int_def)
  have idx: "permutation counting_rng 42 (nat 5) = [4, 3, 2, 1, 0]"
    by (simp add: counting_rng_def eval_nat_numeral upt_rec)
  from generator_deterministic [of counting_rng 5 "2 / 5" 42 42 0 7 "[]" "[]"] h
  obtain df both where g: "generate counting_rng 5 (2 / 5) 42 42 0 = Inr df"
      "generate counting_rng 5 (2 / 5) 42 42 7 = Inr df" "nrows df = nat 5"
    and cells: "\<forall>c i. i < nat 5 \<longrightarrow>
        cell df c i = cell both c (permutation counting_rng 42 (nat 5) ! i)"
    and labels: "\<forall>j. j < nat 5 \<longrightarrow>
        cell both ''is_fraud'' j = Some (if int j < 5 - py_int (of_int 5 * (2 / 5)) then 0 else 1)"
    by blast
  have l: "cell both ''is_fraud'' 0 = Some 0" "cell both ''is_fraud'' 1 = Some 0"
    "cell both ''is_fraud'' 2 = Some 0" "cell both ''is_fraud'' 3 = Some 1"
    "cell both ''is_fraud'' 4 = Some 1"
    using labels k by simp_all
  have "cell df ''is_fraud'' 0 = Some 1" "cell df ''is_fraud'' 1 = Some 1"
    "cell df ''is_fraud'' 2 = Some 0" "cell df ''is_fraud'' 3 = Some 0"
    "cell df ''is_fraud'' 4 = Some 0"
    using cells idx l by simp_all
  with g show ?thesis by auto
qed

text \<open>
  C7, as amended. The generator checks neither the count nor the rate. With a library
  whose \<open>sample\<close> returns the row positions in some order, generation raises an error
  exactly when one of the two population sizes \<open>int(n * r)\<close> and \<open>n - int(n * r)\<close> is
  negative; the error is numpy's \<open>ValueError\<close> for a negative sample count, and no table is
  returned. For \<open>n > 0\<close> and \<open>0 < r < 1\<close> no error is raised.
\<close>

theorem generator_errors_only_on_negative_count:
  assumes "mset (permutation np shuffle_seed (nat n)) = mset [0..<nat n]"
  shows "(generate np n r seed shuffle_seed g0 = Inl ValueError
            \<longleftrightarrow> py_int (of_int n * r) < 0 \<or> n < py_int (of_int n * r))
       \<and> (isl (generate np n r seed shuffle_seed g0)
            \<longleftrightarrow> py_int (of_int n * r) < 0 \<or> n < py_int (of_int n * r))
       \<and> (0 < n \<and> 0 < r \<and> r < 1 \<longrightarrow> \<not> isl (generate np n r seed shuffle_seed g0))"
proof (cases "py_int (of_int n * r) < 0 \<or> n < py_int (of_int n * r)")
  case True
  then have "n - py_int (of_int n * r) < 0 \<or> py_int (of_int n * r) < 0" by auto
  then have e: "generate np n r seed shuffle_seed g0 = Inl ValueError" by (rule generate_error)
  have "\<not> (0 < n \<and> 0 < r \<and> r < 1)"
    using True py_int_bounds [of n r] by auto
  with e True show ?thesis by simp
next
  case False
  then have nl: "0 \<le> n - py_int (of_int n * r)" and nf: "0 \<le> py_int (of_int n * r)" by auto
  from generate_ok [OF nl nf assms, of seed g0]
  obtain df where "generate np n r seed shuffle_seed g0 = Inr df" by blast
  with False show ?thesis by simp
qed

theorem generator_errors_only_on_negative_count_witness:
  "generate counting_rng (- 3) (1 / 2) 42 42 0 = Inl ValueError
   \<and> \<not> isl (generate counting_rng 5 (2 / 5) 42 42 0)"
proof -
  have p: "\<And>k. mset (permutation counting_rng 42 (nat k)) = mset [0..<nat k]"
    by (rule counting_rng_perm)
  have a: "n < py_int (of_int n * (1 / 2))" if "n = - 3" for n :: int
    using that by (simp add: py_int_def)
  have "generate counting_rng (- 3) (1 / 2) 42 42 0 = Inl ValueError"
    using generator_errors_only_on_negative_count [OF p, of "- 3" "1 / 2" 42 0] a by simp
  moreover have "\<not> isl (generate counting_rng 5 (2 / 5) 42 42 0)"
    using generator_errors_only_on_negative_count [OF p, of 5 "2 / 5" 42 0]
    by (simp add: py_int_def)
  ultimately show ?thesis by simp
qed

text \<open>
  A rate outside \<open>(0, 1)\<close> does not by itself raise an error: at the rate 0, for two
  rows, the run returns a table of two legitimate rows.
\<close>

theorem no_validation_counterexample:
  "generate counting_rng 2 0 42 42 0 =
     Inr [(''amount'', [1, 0]), (''hour_of_day'', [3, 2]), (''day_of_week'', [5, 4]),
          (''merchant_category'', [7, 6]), (''num_transactions_1h'', [9, 8]),
          (''num_transactions_24h'', [11, 10]), (''avg_amount_30d'', [13, 12]),
          (''distance_from_home'', [15, 14]), (''is_online'', [17, 16]),
          (''is_international'', [19, 18]), (''card_present'', [21, 20]),
          (''days_since_last_txn'', [23, 22]), (''credit_limit_used_pct'', [25, 24]),
          (''velocity_score'', [27, 26]), (''geo_risk_score'', [29, 28]),
          (''is_fraud'', [0, 0])]"
  by (simp add: generate_def np_random_seed_def population_def sample_all_def make_legit_def
      make_fraud_def legit_columns_def fraud_columns_def counting_rng_def py_int_def
      setcol_def nrows_def concat_frames_def take_rows_def eval_nat_numeral Let_def)

subsection \<open>Parameters of the training script\<close>

text \<open>
  C9, as amended. The training script takes no parameters: whatever the command line,
  it generates with the count 50,000, the rate 0.02 and the seed 42, that is 1,000
  fraudulent and 49,000 legitimate rows. The two values are constants of the source.
\<close>

theorem training_parameters_fixed:
  "train_model_dataset np argv g0 = generate np 50000 (2 / 100) 42 42 g0
   \<and> train_model_dataset np argv g0 = train_model_dataset np argv' g0
   \<and> N = 50000 \<and> FRAUD_RATE = 2 / 100 \<and> n_fraud = 1000 \<and> n_legit = 49000"
  by (simp add: train_model_dataset_def N_def FRAUD_RATE_def n_fraud_def n_legit_def
      py_int_def)

lemma train_rows:
  assumes "mset (permutation np 42 50000) = mset [0..<50000]"
  shows "\<exists>df. train_model_dataset np argv g0 = Inr df \<and> nrows df = 50000"
proof -
  have p: "mset (permutation np 42 (nat 50000)) = mset [0..<nat 50000]" using assms by simp
  have k: "py_int (of_int 50000 * (2 / 100)) = 1000" by (simp add: py_int_def)
  from generate_ok [of 50000 "2 / 100" np 42 42 g0] p k
  obtain df where g: "generate np 50000 (2 / 100) 42 42 g0 = Inr df"
    and names: "map fst df = map fst legit_columns @ [''is_fraud'']"
    and lens: "list_all (\<lambda>p. length (snd p) = nat 50000) df"
    by auto
  have ne: "df \<noteq> []" using names by auto
  have "nrows df = nat 50000" using lens ne by (rule nrows_all)
  then show ?thesis using g by (simp add: train_model_dataset_def N_def FRAUD_RATE_def)
qed

text \<open>
  A caller cannot change the size or the rate: a command line asking for 100 rows at the
  rate 0.5 gives the data set of the plain run, with 50,000 rows.
\<close>

theorem parameters_ignored_counterexample:
  "train_model_dataset counting_rng [''--n'', ''100'', ''--fraud-rate'', ''0.5''] 0
     = train_model_dataset counting_rng [] 0
   \<and> map_sum id nrows
       (train_model_dataset counting_rng [''--n'', ''100'', ''--fraud-rate'', ''0.5''] 0)
     = Inr 50000"
proof -
  have "mset (permutation counting_rng 42 50000) = mset [0..<50000]"
    by (rule counting_rng_perm)
  from train_rows [OF this, of "[''--n'', ''100'', ''--fraud-rate'', ''0.5'']" 0]
  show ?thesis by (auto simp: train_model_dataset_def)
qed

end
